theory Spec2Isabelle
  imports Complex_Main
begin

section \<open>LuckyBasket backend: relational state and the two stored procedures\<close>

text \<open>
  The store is a record of tables, each table a list of rows in insertion order. Only the
  columns that the modelled procedures and handlers read or write are kept.

  \<^item> Identifiers (\<open>UUID\<close>) are natural numbers. \<open>gen_random_uuid()\<close> is an input of each
    operation: the function \<open>rand\<close>, whose value at \<open>i\<close> is the result of the \<open>i\<close>-th call.
    Generated identifiers are taken to be fresh, so primary-key and \<open>reference\<close> collisions
    of generated values are not modelled.
  \<^item> A \<open>DECIMAL(15, 2)\<close> column holds a whole number of hundredths (\<open>money\<close>); a PL/pgSQL
    variable of type \<open>DECIMAL\<close> is an exact rational. Storing a \<open>DECIMAL\<close> into a
    \<open>DECIMAL(15, 2)\<close> column rounds half away from zero (\<open>to_money\<close>). The 15-digit
    overflow of such a column is not modelled.
  \<^item> \<open>NOW()\<close> is the input \<open>now\<close>.
  \<^item> \<open>TEXT\<close> columns with a \<open>CHECK (... IN (...))\<close> constraint are strings, and the constraint
    is checked where a modelled statement writes a value that the source does not fix to
    a member of the list.
  \<^item> A raised exception aborts the calling transaction: an operation returns \<open>Inl e\<close> and
    no state, and its caller keeps the state from before the call.
\<close>

type_synonym uuid = nat
type_synonym money = int
type_synonym timestamptz = int

definition dec :: "money \<Rightarrow> rat" where
  "dec m = of_int m / 100"

definition to_money :: "rat \<Rightarrow> money" where
  "to_money x = (if 0 \<le> x then \<lfloor>x * 100 + 1 / 2\<rfloor> else - \<lfloor>- x * 100 + 1 / 2\<rfloor>)"

datatype sql_exception =
    check_violation string
  | unique_violation string
  | foreign_key_violation string
  | invalid_text_representation

subsection \<open>JSON documents\<close>

text \<open>
  \<open>platform_settings.settings\<close> is a JSONB object. Its values are JSON numbers, booleans or
  null; string-valued settings are outside the model.
\<close>

datatype jval = JNull | JBool bool | JNum rat

type_synonym jobject = "(string \<times> jval) list"

text \<open>\<open>(doc->>key)::DECIMAL\<close>: SQL NULL for a missing key or JSON null, an error for a boolean.\<close>

definition cast_decimal :: "jval option \<Rightarrow> sql_exception + rat option" where
  "cast_decimal v =
     (case v of
        None \<Rightarrow> Inr None
      | Some JNull \<Rightarrow> Inr None
      | Some (JNum r) \<Rightarrow> Inr (Some r)
      | Some (JBool b) \<Rightarrow> Inl invalid_text_representation)"

text \<open>\<open>(doc->>key)::INTEGER\<close>: the text of the number must be a 32-bit integer literal.\<close>

definition cast_integer :: "jval option \<Rightarrow> sql_exception + int option" where
  "cast_integer v =
     (case v of
        None \<Rightarrow> Inr None
      | Some JNull \<Rightarrow> Inr None
      | Some (JNum r) \<Rightarrow>
          (if of_int \<lfloor>r\<rfloor> = r \<and> - 2147483648 \<le> \<lfloor>r\<rfloor> \<and> \<lfloor>r\<rfloor> \<le> 2147483647
           then Inr (Some \<lfloor>r\<rfloor>) else Inl invalid_text_representation)
      | Some (JBool b) \<Rightarrow> Inl invalid_text_representation)"

subsection \<open>Tables\<close>

record profile =
  p_id :: uuid
  p_email :: string
  p_is_verified :: bool
  p_referred_by :: "uuid option"
  p_verification_token :: "string option"
  p_verification_expires :: "timestamptz option"

record wallet =
  w_id :: uuid
  w_user_id :: uuid
  w_balance :: money
  w_vendor_balance :: money
  w_is_locked :: bool

record payout_breakdown =
  total_revenue :: rat
  platform_fee :: rat
  platform_fee_percent :: rat
  vendor_payout :: rat

datatype tx_metadata =
    MetaEmpty
  | MetaPayout uuid payout_breakdown
  | MetaPurchase uuid int money
  | MetaBonus
  | MetaWebhook string

record tx =
  t_id :: uuid
  t_user_id :: uuid
  t_wallet_id :: uuid
  t_type :: string
  t_amount :: money
  t_status :: string
  t_reference :: string
  t_external_reference :: "string option"
  t_balance_before :: "money option"
  t_balance_after :: "money option"
  t_completed_at :: "timestamptz option"
  t_metadata :: tx_metadata

record draw =
  d_id :: uuid
  d_vendor_id :: "uuid option"
  d_ticket_price :: money
  d_total_tickets :: int
  d_sold_tickets :: int
  d_draw_type :: string
  d_status :: string
  d_draw_date :: "timestamptz option"
  d_winner_id :: "uuid option"
  d_winning_ticket_id :: "uuid option"
  d_completed_at :: "timestamptz option"

record ticket =
  k_id :: uuid
  k_draw_id :: uuid
  k_user_id :: uuid
  k_ticket_number :: string
  k_transaction_id :: "uuid option"
  k_is_winner :: bool
  k_created_at :: timestamptz
  k_slot_index :: "int option"

datatype audit_details =
    DetailsPurchased int rat "(uuid \<times> string) list" uuid int
  | DetailsExecuted int nat uuid "uuid list" payout_breakdown
  | DetailsWinner uuid uuid string uuid

record audit_entry =
  a_draw_id :: uuid
  a_event_type :: string
  a_actor_id :: "uuid option"
  a_details :: audit_details
  a_created_at :: timestamptz

record notification =
  n_user_id :: uuid
  n_type :: string
  n_title :: string

record referral =
  r_referrer_id :: uuid
  r_referred_id :: uuid
  r_status :: string
  r_referrer_bonus :: "money option"
  r_referred_bonus :: "money option"
  r_first_purchase_at :: "timestamptz option"

record withdrawal_request =
  wr_id :: uuid
  wr_vendor_id :: uuid
  wr_transaction_id :: "uuid option"
  wr_amount :: money
  wr_status :: string
  wr_admin_notes :: "string option"
  wr_processed_at :: "timestamptz option"

record db =
  profiles :: "profile list"
  wallets :: "wallet list"
  transactions :: "tx list"
  platform_settings :: "jobject option"
  draws :: "draw list"
  tickets :: "ticket list"
  draw_audit_log :: "audit_entry list"
  notifications :: "notification list"
  referrals :: "referral list"
  withdrawal_requests :: "withdrawal_request list"
  ticket_number_seq :: nat

subsection \<open>Statements\<close>

text \<open>\<open>UPDATE t SET ... WHERE cond\<close> rewrites every row that satisfies the condition.\<close>

definition update_where :: "('a \<Rightarrow> bool) \<Rightarrow> ('a \<Rightarrow> 'a) \<Rightarrow> 'a list \<Rightarrow> 'a list" where
  "update_where cond upd rows = map (\<lambda>r. if cond r then upd r else r) rows"

text \<open>
  \<open>SELECT ... ORDER BY key LIMIT 1\<close>: a row with the least key. Postgres leaves the choice
  among equal keys open; the model takes the earliest such row.
\<close>

fun order_by_limit_1 :: "('a \<Rightarrow> nat) \<Rightarrow> 'a list \<Rightarrow> 'a option" where
  "order_by_limit_1 key [] = None"
| "order_by_limit_1 key (r # rows) =
     (case order_by_limit_1 key rows of
        None \<Rightarrow> Some r
      | Some r' \<Rightarrow> if key r \<le> key r' then Some r else Some r')"

text \<open>The text of a number, as \<open>n::text\<close> prints it.\<close>

definition digit_char :: "nat \<Rightarrow> char" where
  "digit_char n = ''0123456789'' ! n"

fun number_text :: "nat \<Rightarrow> string" where
  "number_text n = (if n < 10 then [digit_char n] else number_text (n div 10) @ [digit_char (n mod 10)])"

declare number_text.simps [simp del]

subsection \<open>Draw execution: \<open>public.execute_draw(_draw_id)\<close>\<close>

record draw_success =
  ds_winner_id :: uuid
  ds_winning_ticket_id :: uuid
  ds_winning_ticket_number :: string
  ds_total_tickets :: int
  ds_total_participants :: nat
  ds_random_seed :: uuid
  ds_breakdown :: payout_breakdown

datatype draw_result = DrawFailure string | DrawSuccess draw_success

text \<open>
  The fee block: \<open>COALESCE((v_settings->>'platformFee')::decimal, 15.0)\<close>, and \<open>15.0\<close> again
  in the handler of the block's exceptions. With no settings row \<open>v_settings\<close> is NULL.
\<close>

definition settings_key :: "db \<Rightarrow> string \<Rightarrow> jval option" where
  "settings_key s key = (case platform_settings s of None \<Rightarrow> None | Some doc \<Rightarrow> map_of doc key)"

definition read_platform_fee_percent :: "db \<Rightarrow> rat" where
  "read_platform_fee_percent s =
     (case cast_decimal (settings_key s ''platformFee'') of
        Inl e \<Rightarrow> 15
      | Inr None \<Rightarrow> 15
      | Inr (Some r) \<Rightarrow> r)"

definition compute_breakdown :: "draw \<Rightarrow> rat \<Rightarrow> payout_breakdown" where
  "compute_breakdown v_draw v_platform_fee_percent =
     (let v_total_revenue = of_int (d_sold_tickets v_draw) * dec (d_ticket_price v_draw);
          v_platform_fee = v_total_revenue * (v_platform_fee_percent / 100);
          v_vendor_payout = v_total_revenue - v_platform_fee
      in \<lparr>total_revenue = v_total_revenue, platform_fee = v_platform_fee,
          platform_fee_percent = v_platform_fee_percent, vendor_payout = v_vendor_payout\<rparr>)"

text \<open>
  The vendor credit (\<open>IF FOUND\<close>): the new balance is stored into the \<open>DECIMAL(15, 2)\<close>
  column \<open>vendor_balance\<close>, which carries \<open>CHECK (vendor_balance >= 0)\<close>.
\<close>

definition credit_vendor_wallet ::
  "(nat \<Rightarrow> uuid) \<Rightarrow> timestamptz \<Rightarrow> draw \<Rightarrow> payout_breakdown \<Rightarrow> db \<Rightarrow> sql_exception + db" where
  "credit_vendor_wallet rand now v_draw b s =
     (case d_vendor_id v_draw of
        None \<Rightarrow> Inr s
      | Some vendor \<Rightarrow>
          (case find (\<lambda>w. w_user_id w = vendor) (wallets s) of
             None \<Rightarrow> Inr s
           | Some v_vendor_wallet \<Rightarrow>
               (let v_prev_vendor_bal = w_vendor_balance v_vendor_wallet;
                    v_new_vendor_bal = dec v_prev_vendor_bal + vendor_payout b
                in if to_money v_new_vendor_bal < 0
                   then Inl (check_violation ''wallets_vendor_balance_check'')
                   else Inr (s\<lparr>
                     wallets := update_where (\<lambda>w. w_id w = w_id v_vendor_wallet)
                       (\<lambda>w. w\<lparr>w_vendor_balance := to_money v_new_vendor_bal\<rparr>) (wallets s),
                     transactions := transactions s @
                       [\<lparr>t_id = rand 1, t_user_id = vendor, t_wallet_id = w_id v_vendor_wallet,
                         t_type = ''payout'', t_amount = to_money (vendor_payout b),
                         t_status = ''completed'',
                         t_reference = ''PAYOUT_'' @ number_text (rand 2),
                         t_external_reference = None,
                         t_balance_before = Some v_prev_vendor_bal,
                         t_balance_after = Some (to_money v_new_vendor_bal),
                         t_completed_at = Some now,
                         t_metadata = MetaPayout (d_id v_draw) b\<rparr>]\<rparr>))))"

text \<open>
  \<open>md5 i seed\<close> stands for \<open>md5(id::text || v_random_seed::text)\<close> read as a number; the
  procedure is modelled for every such function. \<open>rand 0\<close> is the seed, \<open>rand 1\<close> the id of
  the payout transaction and \<open>rand 2\<close> the random part of its reference.
\<close>

definition execute_draw ::
  "(uuid \<Rightarrow> uuid \<Rightarrow> nat) \<Rightarrow> (nat \<Rightarrow> uuid) \<Rightarrow> timestamptz \<Rightarrow> db \<Rightarrow> uuid
     \<Rightarrow> sql_exception + draw_result \<times> db" where
  "execute_draw md5 rand now s p_draw_id =
     (case find (\<lambda>d. d_id d = p_draw_id) (draws s) of
        None \<Rightarrow> Inr (DrawFailure ''Draw not found'', s)
      | Some v_draw \<Rightarrow>
          if d_status v_draw = ''completed'' then Inr (DrawFailure ''Draw already completed'', s)
          else if d_status v_draw = ''cancelled'' then Inr (DrawFailure ''Draw is cancelled'', s)
          else if d_sold_tickets v_draw = 0
            then Inr (DrawFailure ''No tickets sold for this draw'', s)
          else
            (let v_random_seed = rand 0;
                 draw_tickets = filter (\<lambda>k. k_draw_id k = p_draw_id) (tickets s);
                 v_all_ticket_ids = map k_id (sort_key k_created_at draw_tickets);
                 v_total_participants = length (remdups (map k_user_id draw_tickets))
             in case order_by_limit_1 (\<lambda>k. md5 (k_id k) v_random_seed) draw_tickets of
                  None \<Rightarrow> Inr (DrawFailure ''No tickets found for this draw'', s)
                | Some v_winning_ticket \<Rightarrow>
                    (let b = compute_breakdown v_draw (read_platform_fee_percent s)
                     in case credit_vendor_wallet rand now v_draw b s of
                          Inl e \<Rightarrow> Inl e
                        | Inr s1 \<Rightarrow>
                            Inr (DrawSuccess
                                  \<lparr>ds_winner_id = k_user_id v_winning_ticket,
                                   ds_winning_ticket_id = k_id v_winning_ticket,
                                   ds_winning_ticket_number = k_ticket_number v_winning_ticket,
                                   ds_total_tickets = d_sold_tickets v_draw,
                                   ds_total_participants = v_total_participants,
                                   ds_random_seed = v_random_seed,
                                   ds_breakdown = b\<rparr>,
                                 s1\<lparr>
                                   tickets := update_where (\<lambda>k. k_id k = k_id v_winning_ticket)
                                     (\<lambda>k. k\<lparr>k_is_winner := True\<rparr>) (tickets s1),
                                   draws := update_where (\<lambda>d. d_id d = p_draw_id)
                                     (\<lambda>d. d\<lparr>d_status := ''completed'',
                                            d_winner_id := Some (k_user_id v_winning_ticket),
                                            d_winning_ticket_id := Some (k_id v_winning_ticket),
                                            d_completed_at := Some now\<rparr>) (draws s1),
                                   draw_audit_log := draw_audit_log s1 @
                                     [\<lparr>a_draw_id = p_draw_id, a_event_type = ''draw_executed'',
                                       a_actor_id = None,
                                       a_details = DetailsExecuted (d_sold_tickets v_draw)
                                         v_total_participants v_random_seed v_all_ticket_ids b,
                                       a_created_at = now\<rparr>,
                                      \<lparr>a_draw_id = p_draw_id, a_event_type = ''winner_selected'',
                                       a_actor_id = Some (k_user_id v_winning_ticket),
                                       a_details = DetailsWinner (k_user_id v_winning_ticket)
                                         (k_id v_winning_ticket)
                                         (k_ticket_number v_winning_ticket) v_random_seed,
                                       a_created_at = now\<rparr>]\<rparr>))))"

subsection \<open>What a caller observes of a call\<close>



definition wallet_of :: "db \<Rightarrow> uuid \<Rightarrow> wallet option" where
  "wallet_of s user = find (\<lambda>w. w_user_id w = user) (wallets s)"

definition draw_of :: "db \<Rightarrow> uuid \<Rightarrow> draw option" where
  "draw_of s i = find (\<lambda>d. d_id d = i) (draws s)"

definition tickets_of :: "db \<Rightarrow> uuid \<Rightarrow> ticket list" where
  "tickets_of s i = filter (\<lambda>k. k_draw_id k = i) (tickets s)"

subsection \<open>Ticket purchase: \<open>public.buy_tickets_v2(_user_id, _draw_id, _quantity)\<close>\<close>

datatype buy_error =
    QuantityOutOfRange int
  | DrawNotFound
  | DrawNotActive
  | VendorOwnBundle
  | NotEnoughTickets int
  | WalletNotFound
  | InsufficientBalance money money
  | WalletLocked

text \<open>
  The success object. \<open>v_referrer_bonus\<close> and \<open>v_referee_bonus\<close> are \<open>DECIMAL\<close> variables that
  a \<open>SELECT ... INTO\<close> without a row sets to NULL (\<open>None\<close>); \<open>referral_bonus_credited\<close> is
  the three-valued \<open>referred_by IS NOT NULL AND v_referrer_bonus > 0\<close>.
\<close>

record buy_success =
  bs_tickets :: "(uuid \<times> string) list"
  bs_total_cost :: money
  bs_new_balance :: rat
  bs_draw_completed :: bool
  bs_draw_result :: "draw_result option"
  bs_transaction_id :: uuid
  bs_referral_bonus_credited :: "bool option"
  bs_bonus_referrer :: "rat option"
  bs_bonus_referee :: "rat option"
  bs_referrer_id :: "uuid option"

datatype buy_result = BuyFailure buy_error | BuySuccess buy_success

text \<open>
  The cap: \<open>(settings->>'maxTicketsPerPurchase')::INTEGER\<close>, and 50 when there is no row,
  no key, or the cast raises.
\<close>

definition read_max_tickets_per_purchase :: "db \<Rightarrow> int" where
  "read_max_tickets_per_purchase s =
     (case cast_integer (settings_key s ''maxTicketsPerPurchase'') of
        Inl e \<Rightarrow> 50
      | Inr None \<Rightarrow> 50
      | Inr (Some n) \<Rightarrow> n)"

text \<open>\<open>LPAD(t, n, c)\<close> pads on the left, and cuts a longer text to its first \<open>n\<close> characters.\<close>

definition lpad :: "string \<Rightarrow> nat \<Rightarrow> char \<Rightarrow> string" where
  "lpad t n c = (if n \<le> length t then take n t else replicate (n - length t) c @ t)"

definition ticket_number_text :: "nat \<Rightarrow> string" where
  "ticket_number_text n = ''LB-'' @ lpad (number_text n) 6 (CHR ''0'')"

text \<open>
  The ticket loop \<open>FOR i IN 1.._quantity\<close>, over the positions \<open>0, 1, ...\<close>. The number comes
  from \<open>nextval('ticket_number_seq')\<close>, which the schema creates (the random fallback of a
  missing sequence is never kept); \<open>ticket_number_seq\<close> is the value the next call returns.
  Each \<open>INSERT\<close> is checked against \<open>UNIQUE(draw_id, ticket_number)\<close>. The ticket at
  position \<open>j\<close> gets the identifier \<open>rand (2 + j)\<close>.
\<close>

definition issued_ticket ::
  "(nat \<Rightarrow> uuid) \<Rightarrow> timestamptz \<Rightarrow> uuid \<Rightarrow> uuid \<Rightarrow> uuid \<Rightarrow> nat \<Rightarrow> nat \<Rightarrow> ticket" where
  "issued_ticket rand now p_user_id p_draw_id v_transaction_id j seq =
     \<lparr>k_id = rand (2 + j), k_draw_id = p_draw_id, k_user_id = p_user_id,
      k_ticket_number = ticket_number_text seq, k_transaction_id = Some v_transaction_id,
      k_is_winner = False, k_created_at = now, k_slot_index = None\<rparr>"

definition number_taken :: "uuid \<Rightarrow> string \<Rightarrow> ticket list \<Rightarrow> bool" where
  "number_taken p_draw_id number rows =
     list_ex (\<lambda>k. k_draw_id k = p_draw_id \<and> k_ticket_number k = number) rows"

fun generate_tickets ::
  "(nat \<Rightarrow> uuid) \<Rightarrow> timestamptz \<Rightarrow> uuid \<Rightarrow> uuid \<Rightarrow> uuid \<Rightarrow> nat list
     \<Rightarrow> ticket list \<times> nat \<times> (uuid \<times> string) list
     \<Rightarrow> sql_exception + ticket list \<times> nat \<times> (uuid \<times> string) list" where
  "generate_tickets rand now p_user_id p_draw_id v_transaction_id [] acc = Inr acc"
| "generate_tickets rand now p_user_id p_draw_id v_transaction_id (j # js) (rows, seq, v_tickets) =
     (let v_ticket_id = rand (2 + j);
          v_ticket_number = ticket_number_text seq
      in if number_taken p_draw_id v_ticket_number rows
         then Inl (unique_violation ''tickets_draw_id_ticket_number_key'')
         else generate_tickets rand now p_user_id p_draw_id v_transaction_id js
                (rows @ [issued_ticket rand now p_user_id p_draw_id v_transaction_id j seq],
                 Suc seq,
                 v_tickets @ [(v_ticket_id, v_ticket_number)]))"

text \<open>
  From the wallet debit to the \<open>tickets_purchased\<close> audit entry. \<open>rand 0\<close> is
  \<open>v_transaction_id\<close>, \<open>rand 1\<close> the random part of the reference.
\<close>

definition debit_and_issue ::
  "(nat \<Rightarrow> uuid) \<Rightarrow> timestamptz \<Rightarrow> db \<Rightarrow> uuid \<Rightarrow> uuid \<Rightarrow> int \<Rightarrow> draw \<Rightarrow> wallet
     \<Rightarrow> sql_exception + (uuid \<times> string) list \<times> db" where
  "debit_and_issue rand now s p_user_id p_draw_id p_quantity v_draw v_wallet =
     (let v_total_cost = d_ticket_price v_draw * p_quantity;
          v_prev_balance = w_balance v_wallet;
          v_new_balance = v_prev_balance - v_total_cost;
          v_transaction_id = rand 0
      in case generate_tickets rand now p_user_id p_draw_id v_transaction_id
                [0 ..< nat p_quantity] (tickets s, ticket_number_seq s, []) of
           Inl e \<Rightarrow> Inl e
         | Inr (rows, seq, v_tickets) \<Rightarrow>
             (let v_new_sold = d_sold_tickets v_draw + p_quantity
              in Inr (v_tickets,
                   s\<lparr>wallets := update_where (\<lambda>w. w_id w = w_id v_wallet)
                        (\<lambda>w. w\<lparr>w_balance := v_new_balance\<rparr>) (wallets s),
                     transactions := transactions s @
                       [\<lparr>t_id = v_transaction_id, t_user_id = p_user_id,
                         t_wallet_id = w_id v_wallet, t_type = ''purchase'',
                         t_amount = v_total_cost, t_status = ''completed'',
                         t_reference = ''TKT_'' @ number_text (rand 1),
                         t_external_reference = None,
                         t_balance_before = Some v_prev_balance,
                         t_balance_after = Some v_new_balance,
                         t_completed_at = Some now,
                         t_metadata = MetaPurchase p_draw_id p_quantity (d_ticket_price v_draw)\<rparr>],
                     tickets := rows,
                     ticket_number_seq := seq,
                     draws := update_where (\<lambda>d. d_id d = p_draw_id)
                        (\<lambda>d. d\<lparr>d_sold_tickets := v_new_sold\<rparr>) (draws s),
                     draw_audit_log := draw_audit_log s @
                       [\<lparr>a_draw_id = p_draw_id, a_event_type = ''tickets_purchased'',
                         a_actor_id = Some p_user_id,
                         a_details = DetailsPurchased p_quantity (dec v_total_cost) v_tickets
                                       v_transaction_id v_new_sold,
                         a_created_at = now\<rparr>]\<rparr>)))"

text \<open>
  The referral block. Its variables: the two bonuses (0 at entry) and \<open>v_new_balance\<close>.
  The inner sub-block credits the referrer when a wallet is found and the bonus is
  positive, credits the referee when the bonus is positive, and then updates the referral
  row. A comparison with NULL is not true, so a NULL bonus credits nothing.
  \<open>rand (2 + q)\<close> to \<open>rand (5 + q)\<close> are the identifiers and reference parts of the two
  bonus transactions.
\<close>

record referral_vars =
  v_referrer_bonus :: "rat option"
  v_referee_bonus :: "rat option"
  v_new_balance :: rat

text \<open>The amount of a bonus that passes \<open>bonus > 0\<close>.\<close>

definition positive_bonus :: "rat option \<Rightarrow> rat option" where
  "positive_bonus b = (case b of None \<Rightarrow> None | Some x \<Rightarrow> if 0 < x then Some x else None)"

definition credit_balance :: "uuid \<Rightarrow> rat \<Rightarrow> wallet list \<Rightarrow> wallet list" where
  "credit_balance wallet_id bonus rows =
     update_where (\<lambda>w. w_id w = wallet_id)
       (\<lambda>w. w\<lparr>w_balance := to_money (dec (w_balance w) + bonus)\<rparr>) rows"

definition bonus_transaction :: "uuid \<Rightarrow> uuid \<Rightarrow> uuid \<Rightarrow> rat \<Rightarrow> string \<Rightarrow> timestamptz \<Rightarrow> tx" where
  "bonus_transaction i user wallet_id bonus reference now =
     \<lparr>t_id = i, t_user_id = user, t_wallet_id = wallet_id, t_type = ''bonus'',
      t_amount = to_money bonus, t_status = ''completed'', t_reference = reference,
      t_external_reference = None, t_balance_before = None, t_balance_after = None,
      t_completed_at = Some now, t_metadata = MetaBonus\<rparr>"

definition apply_referral_bonuses ::
  "(nat \<Rightarrow> uuid) \<Rightarrow> timestamptz \<Rightarrow> uuid \<Rightarrow> uuid \<Rightarrow> wallet \<Rightarrow> nat \<Rightarrow> rat option \<Rightarrow> rat option
     \<Rightarrow> rat \<Rightarrow> db \<Rightarrow> referral_vars \<times> db" where
  "apply_referral_bonuses rand now p_user_id referrer v_wallet q referrer_bonus referee_bonus
       new_balance s =
     (let v_referrer_wallet_id = map_option w_id (wallet_of s referrer);
          v_referee_wallet_id = w_id v_wallet;
          s1 = (case v_referrer_wallet_id of
                  None \<Rightarrow> s
                | Some rw \<Rightarrow>
                    (case positive_bonus referrer_bonus of
                       None \<Rightarrow> s
                     | Some bonus \<Rightarrow>
                         s\<lparr>wallets := credit_balance rw bonus (wallets s),
                           transactions := transactions s @
                             [bonus_transaction (rand (2 + q)) referrer rw bonus
                                (''REF_'' @ number_text (rand (3 + q))) now]\<rparr>));
          s2 = (case positive_bonus referee_bonus of
                  None \<Rightarrow> s1
                | Some bonus \<Rightarrow>
                    s1\<lparr>wallets := credit_balance v_referee_wallet_id bonus (wallets s1),
                       transactions := transactions s1 @
                         [bonus_transaction (rand (4 + q)) p_user_id v_referee_wallet_id bonus
                            (''WELCOME_'' @ number_text (rand (5 + q))) now]\<rparr>);
          new_balance' = (case positive_bonus referee_bonus of
                            None \<Rightarrow> new_balance
                          | Some bonus \<Rightarrow> new_balance + bonus)
      in (\<lparr>v_referrer_bonus = referrer_bonus, v_referee_bonus = referee_bonus,
           v_new_balance = new_balance'\<rparr>,
          s2\<lparr>referrals := update_where (\<lambda>r. r_referred_id r = p_user_id)
                 (\<lambda>r. r\<lparr>r_status := ''completed'',
                        r_referrer_bonus := map_option to_money referrer_bonus,
                        r_referred_bonus := map_option to_money referee_bonus,
                        r_first_purchase_at := Some now\<rparr>) (referrals s2)\<rparr>))"

text \<open>\<open>COALESCE(x, 500)\<close>.\<close>

definition coalesce_500 :: "rat option \<Rightarrow> rat" where
  "coalesce_500 x = (case x of None \<Rightarrow> 500 | Some r \<Rightarrow> r)"

definition first_purchase :: "db \<Rightarrow> uuid \<Rightarrow> uuid \<Rightarrow> bool" where
  "first_purchase s p_user_id v_transaction_id =
     (\<not> list_ex (\<lambda>t. t_user_id t = p_user_id \<and> t_type t = ''purchase''
                      \<and> t_status t = ''completed'' \<and> t_id t \<noteq> v_transaction_id)
          (transactions s))"

definition process_referral_bonus ::
  "(nat \<Rightarrow> uuid) \<Rightarrow> timestamptz \<Rightarrow> uuid \<Rightarrow> wallet \<Rightarrow> uuid \<Rightarrow> nat \<Rightarrow> rat \<Rightarrow> db
     \<Rightarrow> uuid option \<times> referral_vars \<times> db" where
  "process_referral_bonus rand now p_user_id v_wallet v_transaction_id q new_balance s =
     (let unchanged = \<lparr>v_referrer_bonus = Some 0, v_referee_bonus = Some 0,
                       v_new_balance = new_balance\<rparr>
      in case find (\<lambda>p. p_id p = p_user_id) (profiles s) of
           None \<Rightarrow> (None, unchanged, s)
         | Some v_profile \<Rightarrow>
             (case p_referred_by v_profile of
                None \<Rightarrow> (None, unchanged, s)
              | Some referrer \<Rightarrow>
                  if \<not> first_purchase s p_user_id v_transaction_id
                  then (Some referrer, unchanged, s)
                  else
                    (case platform_settings s of
                       None \<Rightarrow>
                         (let (vars, s') = apply_referral_bonuses rand now p_user_id referrer
                                             v_wallet q None None new_balance s
                          in (Some referrer, vars, s'))
                     | Some doc \<Rightarrow>
                         (case cast_decimal (map_of doc ''referralBonus'') of
                            Inl e \<Rightarrow> (Some referrer, unchanged, s)
                          | Inr a \<Rightarrow>
                              (case cast_decimal (map_of doc ''referralBonusReferee'') of
                                 Inl e \<Rightarrow> (Some referrer, unchanged, s)
                               | Inr b \<Rightarrow>
                                   (let (vars, s') =
                                          apply_referral_bonuses rand now p_user_id referrer
                                            v_wallet q (Some (coalesce_500 a))
                                            (Some (coalesce_500 b)) new_balance s
                                    in (Some referrer, vars, s')))))))"

text \<open>
  The whole procedure. The draw execution of a filled \<open>slot_complete\<close> draw runs inside
  the purchase, with its own random values \<open>rand (6 + q), ...\<close>; an exception that it raises
  is not handled and aborts the purchase.
\<close>

definition referral_credited_flag :: "uuid option \<Rightarrow> rat option \<Rightarrow> bool option" where
  "referral_credited_flag referred_by referrer_bonus =
     (case referred_by of
        None \<Rightarrow> Some False
      | Some r \<Rightarrow> (case referrer_bonus of None \<Rightarrow> None | Some b \<Rightarrow> Some (0 < b)))"

definition complete_purchase ::
  "(uuid \<Rightarrow> uuid \<Rightarrow> nat) \<Rightarrow> (nat \<Rightarrow> uuid) \<Rightarrow> timestamptz \<Rightarrow> db \<Rightarrow> uuid \<Rightarrow> uuid \<Rightarrow> int
     \<Rightarrow> draw \<Rightarrow> wallet \<Rightarrow> sql_exception + buy_result \<times> db" where
  "complete_purchase md5 rand now s p_user_id p_draw_id p_quantity v_draw v_wallet =
     (case debit_and_issue rand now s p_user_id p_draw_id p_quantity v_draw v_wallet of
        Inl e \<Rightarrow> Inl e
      | Inr (v_tickets, s1) \<Rightarrow>
          (let v_total_cost = d_ticket_price v_draw * p_quantity;
               v_new_sold = d_sold_tickets v_draw + p_quantity;
               (referred_by, vars, s2) =
                  process_referral_bonus rand now p_user_id v_wallet (rand 0) (nat p_quantity)
                    (dec (w_balance v_wallet - v_total_cost)) s1;
               outcome = (\<lambda>v_draw_completed v_draw_result s3.
                  Inr (BuySuccess
                        \<lparr>bs_tickets = v_tickets, bs_total_cost = v_total_cost,
                         bs_new_balance = v_new_balance vars,
                         bs_draw_completed = v_draw_completed,
                         bs_draw_result = v_draw_result,
                         bs_transaction_id = rand 0,
                         bs_referral_bonus_credited =
                           referral_credited_flag referred_by (v_referrer_bonus vars),
                         bs_bonus_referrer = v_referrer_bonus vars,
                         bs_bonus_referee = v_referee_bonus vars,
                         bs_referrer_id = referred_by\<rparr>, s3))
           in if d_draw_type v_draw = ''slot_complete'' \<and> d_total_tickets v_draw \<le> v_new_sold
              then (case execute_draw md5 (\<lambda>n. rand (6 + nat p_quantity + n)) now s2 p_draw_id of
                      Inl e \<Rightarrow> Inl e
                    | Inr (v_draw_result, s3) \<Rightarrow> outcome True (Some v_draw_result) s3)
              else outcome False None s2))"

definition buy_tickets_v2 ::
  "(uuid \<Rightarrow> uuid \<Rightarrow> nat) \<Rightarrow> (nat \<Rightarrow> uuid) \<Rightarrow> timestamptz \<Rightarrow> db \<Rightarrow> uuid \<Rightarrow> uuid \<Rightarrow> int
     \<Rightarrow> sql_exception + buy_result \<times> db" where
  "buy_tickets_v2 md5 rand now s p_user_id p_draw_id p_quantity =
     (let v_max_tickets_per_purchase = read_max_tickets_per_purchase s
      in if p_quantity < 1 \<or> v_max_tickets_per_purchase < p_quantity
         then Inr (BuyFailure (QuantityOutOfRange v_max_tickets_per_purchase), s)
         else
           (case draw_of s p_draw_id of
              None \<Rightarrow> Inr (BuyFailure DrawNotFound, s)
            | Some v_draw \<Rightarrow>
                if d_status v_draw \<noteq> ''active'' then Inr (BuyFailure DrawNotActive, s)
                else if d_vendor_id v_draw = Some p_user_id
                  then Inr (BuyFailure VendorOwnBundle, s)
                else if d_total_tickets v_draw < d_sold_tickets v_draw + p_quantity
                  then Inr (BuyFailure
                         (NotEnoughTickets (d_total_tickets v_draw - d_sold_tickets v_draw)), s)
                else
                  (case wallet_of s p_user_id of
                     None \<Rightarrow> Inr (BuyFailure WalletNotFound, s)
                   | Some v_wallet \<Rightarrow>
                       if w_balance v_wallet < d_ticket_price v_draw * p_quantity
                         then Inr (BuyFailure
                                (InsufficientBalance (d_ticket_price v_draw * p_quantity)
                                   (w_balance v_wallet)), s)
                       else if w_is_locked v_wallet then Inr (BuyFailure WalletLocked, s)
                       else complete_purchase md5 rand now s p_user_id p_draw_id p_quantity
                              v_draw v_wallet)))"


subsection \<open>When a purchase raises\<close>




subsection \<open>The referral branch\<close>






section \<open>HTTP handlers and the draw scheduler\<close>

text \<open>
  The handlers work on the same store through the database client, one statement per
  call and no transaction around them. A client call does not throw: it returns its rows
  or an error, and a statement that violates a constraint changes nothing. Faults of the
  store or of the network are outside the model, so a statement fails only by a
  constraint. JavaScript numbers are exact rationals; \<open>Date.now()\<close> is the input \<open>now\<close>.
\<close>

text \<open>\<open>.single()\<close>: the row when exactly one row matches, and an error with no data otherwise.\<close>

definition single_row :: "'a list \<Rightarrow> 'a option" where
  "single_row rows = (case rows of [r] \<Rightarrow> Some r | _ \<Rightarrow> None)"

text \<open>\<open>a || b\<close> on optional texts, and the truth value of an optional text.\<close>

definition js_or :: "string option \<Rightarrow> string option \<Rightarrow> string option" where
  "js_or a b = (case a of None \<Rightarrow> b | Some x \<Rightarrow> if x = [] then b else a)"

definition truthy_text :: "string option \<Rightarrow> bool" where
  "truthy_text a = (case a of None \<Rightarrow> False | Some x \<Rightarrow> x \<noteq> [])"

subsection \<open>Notifications\<close>

text \<open>
  \<open>INSERT INTO notifications\<close>, under \<open>CHECK (type IN (...))\<close> and the foreign key of
  \<open>user_id\<close> into \<open>profiles\<close>.
\<close>

definition notification_types :: "string list" where
  "notification_types =
     [''welcome'', ''referral'', ''wallet'', ''ticket'', ''win'', ''draw'', ''kyc'', ''system'']"

definition insert_notification :: "notification \<Rightarrow> db \<Rightarrow> sql_exception + db" where
  "insert_notification n s =
     (if n_type n \<notin> set notification_types
      then Inl (check_violation ''notifications_type_check'')
      else if \<not> list_ex (\<lambda>p. p_id p = n_user_id n) (profiles s)
      then Inl (foreign_key_violation ''notifications_user_id_fkey'')
      else Inr (s\<lparr>notifications := notifications s @ [n]\<rparr>))"

text \<open>\<open>createNotification\<close> logs a failed insert and returns; no caller reads its result.\<close>

definition createNotification :: "uuid \<Rightarrow> string \<Rightarrow> string \<Rightarrow> db \<Rightarrow> db" where
  "createNotification userId kind title s =
     (case insert_notification \<lparr>n_user_id = userId, n_type = kind, n_title = title\<rparr> s of
        Inl e \<Rightarrow> s
      | Inr s' \<Rightarrow> s')"

subsection \<open>Settings fallbacks of the handlers\<close>

text \<open>
  A handler reads \<open>settingsRow?.settings || { ... }\<close>: the stored document, or its own literal
  when there is no row. \<open>config.key || d\<close> is \<open>d\<close> for a missing, null, false or zero value;
  in a comparison \<open>true\<close> counts as 1.
\<close>

definition config_or :: "db \<Rightarrow> jobject \<Rightarrow> jobject" where
  "config_or s fallback = (case platform_settings s of None \<Rightarrow> fallback | Some doc \<Rightarrow> doc)"

definition number_or :: "jval option \<Rightarrow> rat \<Rightarrow> rat" where
  "number_or v d =
     (case v of
        None \<Rightarrow> d
      | Some JNull \<Rightarrow> d
      | Some (JBool b) \<Rightarrow> if b then 1 else d
      | Some (JNum r) \<Rightarrow> if r = 0 then d else r)"

text \<open>
  \<open>validateAmount(value, { min = 0, max = Infinity })\<close>. The value of the request is absent
  (\<open>undefined\<close> or \<open>null\<close>), or \<open>Number(value)\<close> is not finite, or it is a finite number.
  \<open>Math.round\<close> rounds a half up.
\<close>

datatype js_amount = Absent | NonFinite | Finite rat

datatype amount_error =
    Required | NotANumber | NotPositive | TooManyDecimals | BelowMinimum rat | AboveMaximum rat

datatype amount_check = Rejected amount_error | Accepted rat

definition validateAmount :: "js_amount \<Rightarrow> rat \<Rightarrow> rat option \<Rightarrow> amount_check" where
  "validateAmount v minimum maximum =
     (case v of
        Absent \<Rightarrow> Rejected Required
      | NonFinite \<Rightarrow> Rejected NotANumber
      | Finite amount \<Rightarrow>
          if amount \<le> 0 then Rejected NotPositive
          else if of_int \<lfloor>amount * 100 + 1 / 2\<rfloor> / 100 \<noteq> amount then Rejected TooManyDecimals
          else if amount < minimum then Rejected (BelowMinimum minimum)
          else (case maximum of
                  None \<Rightarrow> Accepted amount
                | Some m \<Rightarrow> if m < amount then Rejected (AboveMaximum m) else Accepted amount))"

text \<open>\<open>POST /api/wallet/initialize-payment\<close>: the amount check, before the gateway is called.\<close>

definition deposit_config :: "db \<Rightarrow> jobject" where
  "deposit_config s = config_or s [(''minDeposit'', JNum 100), (''maxDeposit'', JNum 1000000)]"

definition initialize_payment_check :: "db \<Rightarrow> js_amount \<Rightarrow> amount_check" where
  "initialize_payment_check s amount =
     validateAmount amount
       (number_or (map_of (deposit_config s) ''minDeposit'') 100)
       (Some (number_or (map_of (deposit_config s) ''maxDeposit'') 1000000))"

text \<open>
  \<open>POST /api/wallet/withdraw\<close>: the amount check, and the fee \<open>config.withdrawalFee || 0\<close>
  that is added to the amount.
\<close>

definition withdraw_config :: "db \<Rightarrow> jobject" where
  "withdraw_config s = config_or s [(''minWithdrawal'', JNum 1000), (''withdrawalFee'', JNum 100)]"

definition withdraw_check :: "db \<Rightarrow> js_amount \<Rightarrow> amount_check" where
  "withdraw_check s amount =
     validateAmount amount (number_or (map_of (withdraw_config s) ''minWithdrawal'') 1000) None"

definition withdraw_fee :: "db \<Rightarrow> rat" where
  "withdraw_fee s = number_or (map_of (withdraw_config s) ''withdrawalFee'') 0"

text \<open>
  \<open>POST /api/admin/bundles/:id/approve\<close>: the bounds on \<open>total_tickets\<close> and \<open>ticket_price\<close>.
  Both are numbers of the request, and zero is refused like a missing field. A comparison
  with a missing key is false, and a null bound counts as 0.
\<close>

datatype approval_error = FieldsRequired | TotalTicketsOutOfRange | TicketPriceOutOfRange

definition approve_config :: "db \<Rightarrow> jobject" where
  "approve_config s =
     config_or s [(''minTicketsPerDraw'', JNum 10), (''maxTicketsPerDraw'', JNum 10000),
                  (''minTicketPrice'', JNum 100), (''maxTicketPrice'', JNum 50000)]"

definition js_less :: "rat \<Rightarrow> jval option \<Rightarrow> bool" where
  "js_less x v =
     (case v of
        None \<Rightarrow> False
      | Some JNull \<Rightarrow> x < 0
      | Some (JBool b) \<Rightarrow> x < (if b then 1 else 0)
      | Some (JNum r) \<Rightarrow> x < r)"

definition js_greater :: "rat \<Rightarrow> jval option \<Rightarrow> bool" where
  "js_greater x v =
     (case v of
        None \<Rightarrow> False
      | Some JNull \<Rightarrow> 0 < x
      | Some (JBool b) \<Rightarrow> (if b then 1 else 0) < x
      | Some (JNum r) \<Rightarrow> r < x)"

definition approve_check :: "db \<Rightarrow> rat \<Rightarrow> rat \<Rightarrow> approval_error option" where
  "approve_check s total_tickets ticket_price =
     (let config = approve_config s
      in if total_tickets = 0 \<or> ticket_price = 0 then Some FieldsRequired
         else if js_less total_tickets (map_of config ''minTicketsPerDraw'')
                 \<or> js_greater total_tickets (map_of config ''maxTicketsPerDraw'')
         then Some TotalTicketsOutOfRange
         else if js_less ticket_price (map_of config ''minTicketPrice'')
                 \<or> js_greater ticket_price (map_of config ''maxTicketPrice'')
         then Some TicketPriceOutOfRange
         else None)"

text \<open>\<open>GET /api/admin/settings\<close>: the stored document, or the handler's literal.\<close>

definition admin_settings :: "db \<Rightarrow> jobject" where
  "admin_settings s =
     config_or s
       [(''platformFee'', JNum 15), (''referralBonus'', JNum 1000),
        (''referralPercentage'', JNum 10), (''minTicketPrice'', JNum 500),
        (''maxTicketPrice'', JNum 5000), (''defaultTicketPrice'', JNum 1000),
        (''maxTicketsPerDraw'', JNum 1000), (''minTicketsPerDraw'', JNum 10),
        (''autoDrawOnFull'', JBool True), (''maxTicketsPerPurchase'', JNum 50),
        (''minDeposit'', JNum 1000), (''minWithdrawal'', JNum 5000),
        (''withdrawalFee'', JNum 100), (''minBundlePrice'', JNum 50000),
        (''maxBundlePrice'', JNum 500000)]"

text \<open>\<open>GET /api/draws/config\<close>: the stored document, or the literal of the public route.\<close>

definition public_config :: "db \<Rightarrow> jobject" where
  "public_config s =
     config_or s
       [(''platformFee'', JNum 15), (''referralBonus'', JNum 500),
        (''referralBonusReferee'', JNum 500), (''referralPercentage'', JNum 5),
        (''minTicketPrice'', JNum 500), (''maxTicketPrice'', JNum 5000),
        (''defaultTicketPrice'', JNum 1000), (''maxTicketsPerDraw'', JNum 1000),
        (''minTicketsPerDraw'', JNum 10), (''autoDrawOnFull'', JBool True),
        (''maxTicketsPerPurchase'', JNum 50), (''minDeposit'', JNum 1000),
        (''minWithdrawal'', JNum 5000), (''withdrawalFee'', JNum 100),
        (''minBundlePrice'', JNum 50000), (''maxBundlePrice'', JNum 500000)]"

subsection \<open>The gateway webhook: \<open>POST /api/webhooks/flutterwave\<close>\<close>

text \<open>
  The payload after normalisation keeps both spellings of the transaction reference,
  \<open>tx_ref\<close> and \<open>txRef\<close>, since the handlers prefer them in different orders.
\<close>

record webhook_data =
  wd_id :: nat
  wd_tx_ref :: "string option"
  wd_txRef :: "string option"
  wd_reference :: "string option"
  wd_amount :: "rat option"
  wd_status :: "string option"
  wd_meta_user_id :: "uuid option"
  wd_customer_email :: "string option"
  wd_complete_message :: "string option"

record webhook_request =
  wh_verif_hash :: "string option"
  wh_event :: "string option"
  wh_data :: webhook_data

text \<open>
  What the process and the gateway contribute: the configured \<open>FLW_WEBHOOK_SECRET\<close>,
  whether \<open>FLUTTERWAVE_SECRET_KEY\<close> is a test key, and the answer of the gateway's
  verification call, which never throws.
\<close>

datatype verification = VerificationFailed | Verified webhook_data

record gateway_env =
  flw_webhook_secret :: "string option"
  test_mode :: bool
  verifyTransaction :: "nat \<Rightarrow> verification"

definition verifyWebhookSignature :: "gateway_env \<Rightarrow> string option \<Rightarrow> bool" where
  "verifyWebhookSignature env webhookHash =
     (if \<not> truthy_text (flw_webhook_secret env) then False
      else if \<not> truthy_text webhookHash then False
      else webhookHash = flw_webhook_secret env)"

text \<open>\<open>normalizedData.tx_ref\<close> and \<open>normalizedData.reference\<close>.\<close>

definition normalized_tx_ref :: "webhook_data \<Rightarrow> string option" where
  "normalized_tx_ref d = js_or (wd_tx_ref d) (wd_txRef d)"

definition normalized_reference :: "webhook_data \<Rightarrow> string option" where
  "normalized_reference d = js_or (wd_reference d) (js_or (wd_txRef d) (wd_tx_ref d))"

definition number_or_zero :: "rat option \<Rightarrow> rat" where
  "number_or_zero a = (case a of None \<Rightarrow> 0 | Some x \<Rightarrow> x)"

text \<open>
  \<open>handleChargeCompleted\<close>. The only statement whose error the handler rethrows is the
  wallet credit, which the store refuses under \<open>CHECK (balance >= 0)\<close>; nothing has been
  written before it. The later statements are not checked by the handler: the insert of
  a top-up row is dropped when the reference is missing or already used
  (\<open>reference TEXT UNIQUE NOT NULL\<close>). The new row gets the identifier \<open>rand 0\<close>.
\<close>

definition credit_user ::
  "(nat \<Rightarrow> uuid) \<Rightarrow> timestamptz \<Rightarrow> nat \<Rightarrow> rat \<Rightarrow> string option \<Rightarrow> uuid \<Rightarrow> db
     \<Rightarrow> sql_exception + db" where
  "credit_user rand now transactionId verifiedAmount effectiveTxRef userId s =
     (case single_row (filter (\<lambda>w. w_user_id w = userId) (wallets s)) of
        None \<Rightarrow> Inr s
      | Some wallet \<Rightarrow>
          if single_row (filter (\<lambda>t. t_wallet_id t = w_id wallet
                                    \<and> t_external_reference t = Some (number_text transactionId)
                                    \<and> t_status t = ''completed'') (transactions s)) \<noteq> None
          then Inr s
          else
            (let previousBalance = dec (w_balance wallet);
                 newBalance = previousBalance + verifiedAmount
             in if to_money newBalance < 0 then Inl (check_violation ''wallets_balance_check'')
                else
                  (let s1 = s\<lparr>wallets := update_where (\<lambda>w. w_id w = w_id wallet)
                                 (\<lambda>w. w\<lparr>w_balance := to_money newBalance\<rparr>) (wallets s)\<rparr>;
                       pendingTx = single_row (filter (\<lambda>t. Some (t_reference t) = effectiveTxRef
                                      \<and> t_status t = ''pending'') (transactions s1));
                       s2 = (case pendingTx of
                               Some ptx \<Rightarrow>
                                 s1\<lparr>transactions := update_where (\<lambda>t. t_id t = t_id ptx)
                                    (\<lambda>t. t\<lparr>t_status := ''completed'',
                                           t_amount := to_money verifiedAmount,
                                           t_external_reference := Some (number_text transactionId),
                                           t_balance_before := Some (to_money previousBalance),
                                           t_balance_after := Some (to_money newBalance),
                                           t_completed_at := Some now,
                                           t_metadata := MetaWebhook ''webhook''\<rparr>)
                                    (transactions s1)\<rparr>
                             | None \<Rightarrow>
                                 (case effectiveTxRef of
                                    None \<Rightarrow> s1
                                  | Some reference \<Rightarrow>
                                      if list_ex (\<lambda>t. t_reference t = reference) (transactions s1)
                                      then s1
                                      else s1\<lparr>transactions := transactions s1 @
                                        [\<lparr>t_id = rand 0, t_user_id = userId,
                                          t_wallet_id = w_id wallet, t_type = ''topup'',
                                          t_amount = to_money verifiedAmount,
                                          t_status = ''completed'', t_reference = reference,
                                          t_external_reference = Some (number_text transactionId),
                                          t_balance_before = Some (to_money previousBalance),
                                          t_balance_after = Some (to_money newBalance),
                                          t_completed_at = Some now,
                                          t_metadata = MetaWebhook ''webhook''\<rparr>]\<rparr>))
                   in Inr (createNotification userId ''wallet'' ''Wallet Funded'' s2))))"

text \<open>
  The user of a charge: the owner of the transaction with the reference, else the owner
  of the wallet of \<open>meta.user_id\<close>, else the profile with the customer's email. \<open>None\<close> at
  the outer level is the early return for a transaction that is already completed.
\<close>

definition charge_user :: "webhook_data \<Rightarrow> webhook_data \<Rightarrow> string option \<Rightarrow> db \<Rightarrow> uuid option option" where
  "charge_user d verifiedData effectiveTxRef s =
     (let existingTx = (if truthy_text effectiveTxRef
                        then single_row (filter (\<lambda>t. Some (t_reference t) = effectiveTxRef)
                               (transactions s))
                        else None)
      in if (case existingTx of None \<Rightarrow> False | Some t \<Rightarrow> t_status t = ''completed'')
         then None
         else
           (let userId1 = map_option t_user_id existingTx;
                metaUserId = (case wd_meta_user_id d of
                                None \<Rightarrow> wd_meta_user_id verifiedData | Some m \<Rightarrow> Some m);
                userId2 = (case userId1 of
                             Some u \<Rightarrow> Some u
                           | None \<Rightarrow>
                               (case metaUserId of
                                  None \<Rightarrow> None
                                | Some m \<Rightarrow> map_option w_user_id
                                    (single_row (filter (\<lambda>w. w_user_id w = m) (wallets s)))));
                customerEmail = js_or (wd_customer_email d) (wd_customer_email verifiedData);
                userId3 = (case userId2 of
                             Some u \<Rightarrow> Some u
                           | None \<Rightarrow>
                               if truthy_text customerEmail
                               then map_option p_id
                                      (single_row (filter (\<lambda>p. Some (p_email p) = customerEmail)
                                         (profiles s)))
                               else None)
            in Some userId3))"

definition handleChargeCompleted ::
  "gateway_env \<Rightarrow> (nat \<Rightarrow> uuid) \<Rightarrow> timestamptz \<Rightarrow> webhook_data \<Rightarrow> db \<Rightarrow> sql_exception + db" where
  "handleChargeCompleted env rand now d s =
     (let tx_ref = normalized_tx_ref d;
          verified = (case verifyTransaction env (wd_id d) of
                        Verified v \<Rightarrow> Some (v, number_or_zero (wd_amount v), wd_tx_ref v)
                      | VerificationFailed \<Rightarrow>
                          if test_mode env then Some (d, number_or_zero (wd_amount d), tx_ref)
                          else None)
      in case verified of
           None \<Rightarrow> Inr s
         | Some (verifiedData, verifiedAmount, verifiedTxRef) \<Rightarrow>
             (let effectiveTxRef = js_or verifiedTxRef tx_ref
              in case charge_user d verifiedData effectiveTxRef s of
                   None \<Rightarrow> Inr s
                 | Some None \<Rightarrow> Inr s
                 | Some (Some userId) \<Rightarrow>
                     credit_user rand now (wd_id d) verifiedAmount effectiveTxRef userId s))"

text \<open>
  \<open>UPDATE withdrawal_requests SET status = ...\<close> under
  \<open>CHECK (status IN ('pending', 'approved', 'rejected', 'processing'))\<close>: the statement is
  refused as a whole when it would write another status into a row. The handlers do
  not read its result.
\<close>

definition withdrawal_statuses :: "string list" where
  "withdrawal_statuses = [''pending'', ''approved'', ''rejected'', ''processing'']"

definition update_withdrawal_requests ::
  "(withdrawal_request \<Rightarrow> bool) \<Rightarrow> (withdrawal_request \<Rightarrow> withdrawal_request) \<Rightarrow> db \<Rightarrow> db" where
  "update_withdrawal_requests cond upd s =
     (let rows = update_where cond upd (withdrawal_requests s)
      in if list_all (\<lambda>r. wr_status r \<in> set withdrawal_statuses)
              (map upd (filter cond (withdrawal_requests s)))
         then s\<lparr>withdrawal_requests := rows\<rparr>
         else s)"

text \<open>
  The reference of a transfer event, \<open>data.reference || data.txRef || data.tx_ref\<close> on the
  normalised payload, and the withdrawal transaction that carries it.
\<close>

definition transfer_reference :: "webhook_data \<Rightarrow> string option" where
  "transfer_reference d =
     js_or (normalized_reference d) (js_or (wd_txRef d) (normalized_tx_ref d))"

definition withdrawal_tx :: "string option \<Rightarrow> db \<Rightarrow> tx option" where
  "withdrawal_tx reference s =
     single_row (filter (\<lambda>t. Some (t_reference t) = reference \<and> t_type t = ''withdrawal'')
       (transactions s))"

definition handleTransferCompleted :: "timestamptz \<Rightarrow> webhook_data \<Rightarrow> db \<Rightarrow> db" where
  "handleTransferCompleted now d s =
     (let reference = transfer_reference d
      in if \<not> truthy_text reference then s
         else
           (case withdrawal_tx reference s of
              None \<Rightarrow> s
            | Some tx \<Rightarrow>
                if t_status tx = ''completed'' then s
                else
                  (let s1 = s\<lparr>transactions := update_where (\<lambda>t. t_id t = t_id tx)
                               (\<lambda>t. t\<lparr>t_status := ''completed'', t_completed_at := Some now,
                                      t_metadata := MetaWebhook ''webhook''\<rparr>)
                               (transactions s)\<rparr>;
                       s2 = update_withdrawal_requests (\<lambda>r. wr_transaction_id r = Some (t_id tx))
                              (\<lambda>r. r\<lparr>wr_status := ''completed'', wr_processed_at := Some now\<rparr>) s1
                   in createNotification (t_user_id tx) ''wallet'' ''Withdrawal Successful'' s2)))"

definition handleTransferFailed :: "webhook_data \<Rightarrow> db \<Rightarrow> db" where
  "handleTransferFailed d s =
     (let reference = transfer_reference d
      in if \<not> truthy_text reference then s
         else
           (case withdrawal_tx reference s of
              None \<Rightarrow> s
            | Some tx \<Rightarrow>
                (let s1 = update_withdrawal_requests (\<lambda>r. wr_transaction_id r = Some (t_id tx))
                            (\<lambda>r. r\<lparr>wr_status := ''failed'',
                                   wr_admin_notes := Some (''System: Transfer failed on Flutterwave. Message: ''
                                     @ (case js_or (wd_complete_message d) (Some ''Reason unknown'') of
                                          None \<Rightarrow> [] | Some m \<Rightarrow> m)
                                     @ ''. You can retry or refund manually.'')\<rparr>) s;
                     s2 = s1\<lparr>transactions := update_where (\<lambda>t. t_id t = t_id tx)
                               (\<lambda>t. t\<lparr>t_status := ''failed'', t_metadata := MetaWebhook ''webhook''\<rparr>)
                               (transactions s1)\<rparr>
                 in createNotification (t_user_id tx) ''wallet'' ''Withdrawal Failed'' s2)))"

text \<open>
  The route. A handler that throws is caught by the route, which answers 500; what the
  handler wrote before stays, and \<open>handleChargeCompleted\<close> throws before it writes.
\<close>

definition charge_events :: "string list" where
  "charge_events = [''charge.completed'', ''BANK_TRANSFER_TRANSACTION'', ''CARD_TRANSACTION'']"

definition dispatch_event ::
  "gateway_env \<Rightarrow> (nat \<Rightarrow> uuid) \<Rightarrow> timestamptz \<Rightarrow> webhook_request \<Rightarrow> db \<Rightarrow> sql_exception + db" where
  "dispatch_event env rand now req s =
     (case wh_event req of
        None \<Rightarrow> Inr s
      | Some event \<Rightarrow>
          if event \<in> set charge_events
          then (if wd_status (wh_data req) = Some ''successful''
                then handleChargeCompleted env rand now (wh_data req) s
                else Inr s)
          else if event = ''transfer.completed'' \<or> event = ''TRANSFER_COMPLETED''
          then Inr (handleTransferCompleted now (wh_data req) s)
          else if event = ''transfer.failed'' \<or> event = ''TRANSFER_FAILED''
          then Inr (handleTransferFailed (wh_data req) s)
          else Inr s)"

definition flutterwave_webhook ::
  "gateway_env \<Rightarrow> (nat \<Rightarrow> uuid) \<Rightarrow> timestamptz \<Rightarrow> webhook_request \<Rightarrow> db \<Rightarrow> nat \<times> db" where
  "flutterwave_webhook env rand now req s =
     (if \<not> truthy_text (wh_verif_hash req) \<or> \<not> verifyWebhookSignature env (wh_verif_hash req)
      then (401, s)
      else (case dispatch_event env rand now req s of
              Inl e \<Rightarrow> (500, s)
            | Inr s' \<Rightarrow> (200, s')))"

subsection \<open>The draw scheduler\<close>

text \<open>
  One tick of \<open>drawScheduler\<close>. The expired draws are read once; each is then cancelled when
  its \<open>sold_tickets\<close>, as read, is zero, and handed to \<open>execute_draw\<close> otherwise. The \<open>k\<close>-th
  call of \<open>execute_draw\<close> draws its identifiers from \<open>rands k\<close>. An RPC that raises leaves the
  store as it was and the loop goes on. After a success the tick inserts a notification
  of type \<open>draw_won\<close> for the winner and does not read the result of the insert.
\<close>

definition expired_timer_draws :: "timestamptz \<Rightarrow> db \<Rightarrow> draw list" where
  "expired_timer_draws now s =
     filter (\<lambda>d. d_status d = ''active'' \<and> d_draw_type d = ''timer''
                \<and> (case d_draw_date d of None \<Rightarrow> False | Some t \<Rightarrow> t \<le> now))
       (draws s)"

definition notify_winner :: "draw_success \<Rightarrow> db \<Rightarrow> db" where
  "notify_winner r s =
     (case insert_notification
             \<lparr>n_user_id = ds_winner_id r, n_type = ''draw_won'', n_title = ''You Won!''\<rparr> s of
        Inl e \<Rightarrow> s
      | Inr s' \<Rightarrow> s')"

definition scheduler_step ::
  "(uuid \<Rightarrow> uuid \<Rightarrow> nat) \<Rightarrow> (nat \<Rightarrow> uuid) \<Rightarrow> timestamptz \<Rightarrow> draw \<Rightarrow> db \<Rightarrow> db" where
  "scheduler_step md5 rand now expired s =
     (if d_sold_tickets expired = 0
      then s\<lparr>draws := update_where (\<lambda>d. d_id d = d_id expired)
                (\<lambda>d. d\<lparr>d_status := ''cancelled'', d_completed_at := Some now\<rparr>) (draws s)\<rparr>
      else (case execute_draw md5 rand now s (d_id expired) of
              Inl drawError \<Rightarrow> s
            | Inr (DrawSuccess r, s') \<Rightarrow> notify_winner r s'
            | Inr (DrawFailure m, s') \<Rightarrow> s'))"

fun scheduler_loop ::
  "(uuid \<Rightarrow> uuid \<Rightarrow> nat) \<Rightarrow> (nat \<Rightarrow> nat \<Rightarrow> uuid) \<Rightarrow> timestamptz \<Rightarrow> nat \<Rightarrow> draw list \<Rightarrow> db \<Rightarrow> db" where
  "scheduler_loop md5 rands now k [] s = s"
| "scheduler_loop md5 rands now k (expired # rest) s =
     scheduler_loop md5 rands now (Suc k) rest (scheduler_step md5 (rands k) now expired s)"

definition scheduler_tick ::
  "(uuid \<Rightarrow> uuid \<Rightarrow> nat) \<Rightarrow> (nat \<Rightarrow> nat \<Rightarrow> uuid) \<Rightarrow> timestamptz \<Rightarrow> db \<Rightarrow> db" where
  "scheduler_tick md5 rands now s = scheduler_loop md5 rands now 0 (expired_timer_draws now s) s"

subsection \<open>Email verification: \<open>GET /api/auth/verify-email/:token\<close>\<close>

text \<open>
  The response is its status and message. \<open>new Date(null)\<close> is the epoch, so a missing
  expiry counts as time 0.
\<close>

datatype http_response = Json nat string

definition status_of :: "http_response \<Rightarrow> nat" where
  "status_of r = (case r of Json code message \<Rightarrow> code)"

definition verify_email :: "timestamptz \<Rightarrow> string \<Rightarrow> db \<Rightarrow> http_response \<times> db" where
  "verify_email now token s =
     (case single_row (filter (\<lambda>p. p_verification_token p = Some token) (profiles s)) of
        None \<Rightarrow> (Json 400 ''Invalid or expired verification token'', s)
      | Some found \<Rightarrow>
          if p_is_verified found then (Json 200 ''Email already verified'', s)
          else if (case p_verification_expires found of None \<Rightarrow> 0 | Some t \<Rightarrow> t) < now
          then (Json 400 ''Verification token has expired'', s)
          else
            (let s1 = s\<lparr>profiles := update_where (\<lambda>p. p_id p = p_id found)
                         (\<lambda>p. p\<lparr>p_is_verified := True, p_verification_token := None,
                                p_verification_expires := None\<rparr>) (profiles s)\<rparr>
             in (Json 200 ''Email verified successfully'',
                 createNotification (p_id found) ''system'' ''Email Verified!'' s1)))"

subsection \<open>The purchase endpoint: \<open>POST /api/tickets/buy\<close>\<close>

text \<open>
  The body: \<open>draw_id\<close>, the value of \<open>parseInt(quantity)\<close> (\<open>None\<close> for \<open>NaN\<close>; the field
  defaults to 1), and \<open>slot_indices\<close> when it is an array.

  Modelled from the spec: the column \<open>tickets.slot_index\<close>, which no schema file under
  the sources declares: an optional position of the ticket in the visual grid of its
  draw. The handler has refused repeated and taken positions before it writes any.
\<close>

record buy_request =
  br_draw_id :: "uuid option"
  br_quantity :: "int option"
  br_slot_indices :: "int list option"

datatype buy_response =
    BadRequest string
  | Purchased "(uuid \<times> string) list" money rat bool "draw_result option"

text \<open>\<open>config.maxTicketsPerPurchase || 50\<close> on the stored document or the handler's literal.\<close>

definition purchase_cap :: "db \<Rightarrow> rat" where
  "purchase_cap s =
     number_or (map_of (config_or s [(''maxTicketsPerPurchase'', JNum 50)])
                  ''maxTicketsPerPurchase'') 50"

text \<open>
  The quantity: the length of \<open>slot_indices\<close> when that is an array, and the parsed
  \<open>quantity\<close> otherwise.
\<close>

definition requested_quantity :: "buy_request \<Rightarrow> int option" where
  "requested_quantity req =
     (case br_slot_indices req of
        Some slots \<Rightarrow> Some (int (length slots))
      | None \<Rightarrow> br_quantity req)"

text \<open>Step 3: the loop that writes \<open>slot_indices[i]\<close> onto \<open>result.tickets[i]\<close>.\<close>

fun assign_slots :: "(uuid \<times> string) list \<Rightarrow> int list \<Rightarrow> ticket list \<Rightarrow> ticket list" where
  "assign_slots (t # ts) (slot # slots) rows =
     assign_slots ts slots
       (update_where (\<lambda>k. k_id k = fst t) (\<lambda>k. k\<lparr>k_slot_index := Some slot\<rparr>) rows)"
| "assign_slots ts slots rows = rows"

text \<open>Steps 5 to 7: the notifications of a successful purchase.\<close>

definition purchase_notifications :: "uuid \<Rightarrow> uuid \<Rightarrow> buy_success \<Rightarrow> db \<Rightarrow> db" where
  "purchase_notifications userId draw_id r s =
     (let s1 = createNotification userId ''ticket'' ''Tickets Purchased!'' s;
          s2 = (if bs_referral_bonus_credited r = Some True
                then (let s3 = (case bs_referrer_id r of
                                  None \<Rightarrow> s1
                                | Some referrer \<Rightarrow>
                                    if (case bs_bonus_referrer r of None \<Rightarrow> False | Some b \<Rightarrow> 0 < b)
                                    then createNotification referrer ''referral''
                                           ''Referral Bonus Received!'' s1
                                    else s1)
                      in if (case bs_bonus_referee r of None \<Rightarrow> False | Some b \<Rightarrow> 0 < b)
                         then createNotification userId ''referral'' ''Welcome Bonus Received!'' s3
                         else s3)
                else s1)
      in if bs_draw_completed r
         then (case bs_draw_result r of
                 Some (DrawSuccess w) \<Rightarrow>
                   (let s4 = createNotification (ds_winner_id w) ''win'' ''You Won!'' s2
                    in case Option.bind (draw_of s4 draw_id) d_vendor_id of
                         None \<Rightarrow> s4
                       | Some vendor \<Rightarrow> createNotification vendor ''draw'' ''Draw Completed!'' s4)
               | _ \<Rightarrow> s2)
         else s2)"

definition buy ::
  "(uuid \<Rightarrow> uuid \<Rightarrow> nat) \<Rightarrow> (nat \<Rightarrow> uuid) \<Rightarrow> timestamptz \<Rightarrow> uuid \<Rightarrow> buy_request \<Rightarrow> db
     \<Rightarrow> buy_response \<times> db" where
  "buy md5 rand now userId req s =
     (case br_draw_id req of
        None \<Rightarrow> (BadRequest ''Draw ID is required'', s)
      | Some draw_id \<Rightarrow>
          (case requested_quantity req of
             None \<Rightarrow> (BadRequest ''Quantity out of range'', s)
           | Some qty \<Rightarrow>
               if qty < 1 \<or> purchase_cap s < of_int qty
               then (BadRequest ''Quantity out of range'', s)
               else if (case br_slot_indices req of
                          None \<Rightarrow> False | Some slots \<Rightarrow> \<not> distinct slots)
               then (BadRequest ''Duplicate slot selections are not allowed'', s)
               else if (case br_slot_indices req of
                          None \<Rightarrow> False
                        | Some slots \<Rightarrow>
                            list_ex (\<lambda>k. k_draw_id k = draw_id
                                       \<and> (case k_slot_index k of
                                             None \<Rightarrow> False | Some i \<Rightarrow> i \<in> set slots))
                              (tickets s))
               then (BadRequest ''Some selected slots are already taken'', s)
               else
                 (case buy_tickets_v2 md5 rand now s userId draw_id qty of
                    Inl rpcError \<Rightarrow> (BadRequest ''Transaction failed'', s)
                  | Inr (BuyFailure e, s') \<Rightarrow> (BadRequest ''Transaction failed'', s')
                  | Inr (BuySuccess r, s') \<Rightarrow>
                      (let s1 = (case br_slot_indices req of
                                   None \<Rightarrow> s'
                                 | Some slots \<Rightarrow>
                                     s'\<lparr>tickets := assign_slots (bs_tickets r) slots (tickets s')\<rparr>)
                       in (Purchased (bs_tickets r) (bs_total_cost r) (bs_new_balance r)
                             (bs_draw_completed r) (bs_draw_result r),
                           purchase_notifications userId draw_id r s1)))))"

section \<open>Concrete states\<close>

text \<open>States and inputs on which the theorems below are instantiated.\<close>

definition sample_md5 :: "uuid \<Rightarrow> uuid \<Rightarrow> nat" where
  "sample_md5 i seed = (i * 7 + seed) mod 5"

definition sample_rand :: "nat \<Rightarrow> uuid" where
  "sample_rand n = 100 + n"

definition sample_draw :: draw where
  "sample_draw =
     \<lparr>d_id = 11, d_vendor_id = Some 9, d_ticket_price = 100000, d_total_tickets = 10,
      d_sold_tickets = 2, d_draw_type = ''timer'', d_status = ''active'',
      d_draw_date = Some 50, d_winner_id = None, d_winning_ticket_id = None,
      d_completed_at = None\<rparr>"

definition sample_ticket :: "uuid \<Rightarrow> uuid \<Rightarrow> string \<Rightarrow> ticket" where
  "sample_ticket i user number =
     \<lparr>k_id = i, k_draw_id = 11, k_user_id = user, k_ticket_number = number,
      k_transaction_id = None, k_is_winner = False, k_created_at = 10, k_slot_index = None\<rparr>"

definition timer_db :: db where
  "timer_db =
     \<lparr>profiles = [],
      wallets = [\<lparr>w_id = 90, w_user_id = 9, w_balance = 0, w_vendor_balance = 0,
                  w_is_locked = False\<rparr>],
      transactions = [], platform_settings = None,
      draws = [sample_draw],
      tickets = [sample_ticket 7 3 ''LB-100001'', sample_ticket 8 4 ''LB-100002''],
      draw_audit_log = [], notifications = [], referrals = [], withdrawal_requests = [],
      ticket_number_seq = 100003\<rparr>"

text \<open>One ticket sold at 10.01: 15 percent of the revenue is 1.5015.\<close>

definition rounding_db :: db where
  "rounding_db =
     timer_db\<lparr>draws := [sample_draw\<lparr>d_ticket_price := 1001, d_sold_tickets := 1\<rparr>],
             tickets := [sample_ticket 7 3 ''LB-100001'']\<rparr>"


text \<open>
  A shop: buyer 3 was referred by 4, vendor 9 sells draw 11 (four tickets at 1000.00, two
  sold), and the settings row holds the seeded values that matter here.
\<close>

definition shop_profile :: "uuid \<Rightarrow> uuid option \<Rightarrow> profile" where
  "shop_profile i referred_by =
     \<lparr>p_id = i, p_email = ''user@example.com'', p_is_verified = True,
      p_referred_by = referred_by, p_verification_token = None,
      p_verification_expires = None\<rparr>"

definition shop_wallet :: "uuid \<Rightarrow> uuid \<Rightarrow> money \<Rightarrow> wallet" where
  "shop_wallet i user balance =
     \<lparr>w_id = i, w_user_id = user, w_balance = balance, w_vendor_balance = 0,
      w_is_locked = False\<rparr>"

definition shop_draw :: draw where
  "shop_draw = sample_draw\<lparr>d_draw_type := ''slot_complete'', d_total_tickets := 4,
                          d_draw_date := None\<rparr>"

definition shop_db :: db where
  "shop_db =
     \<lparr>profiles = [shop_profile 3 (Some 4), shop_profile 4 None, shop_profile 9 None],
      wallets = [shop_wallet 30 3 500000, shop_wallet 40 4 0, shop_wallet 90 9 0],
      transactions = [],
      platform_settings = Some [(''platformFee'', JNum 15), (''referralBonus'', JNum 500),
        (''referralBonusReferee'', JNum 500), (''maxTicketsPerPurchase'', JNum 50)],
      draws = [shop_draw],
      tickets = [sample_ticket 7 5 ''LB-100001'', sample_ticket 8 6 ''LB-100002''],
      draw_audit_log = [], notifications = [],
      referrals = [\<lparr>r_referrer_id = 4, r_referred_id = 3, r_status = ''pending'',
                    r_referrer_bonus = Some 0, r_referred_bonus = Some 0,
                    r_first_purchase_at = None\<rparr>],
      withdrawal_requests = [], ticket_number_seq = 100003\<rparr>"

text \<open>The shop with a platform fee of 200 percent.\<close>

definition overfee_db :: db where
  "overfee_db = shop_db\<lparr>platform_settings := Some [(''platformFee'', JNum 200)]\<rparr>"

text \<open>The shop with both referral bonuses set to zero.\<close>

definition nobonus_db :: db where
  "nobonus_db = shop_db\<lparr>platform_settings :=
     Some [(''referralBonus'', JNum 0), (''referralBonusReferee'', JNum 0)]\<rparr>"

text \<open>The timer draw of \<open>timer_db\<close> with the profiles of its buyers and its vendor.\<close>

definition expired_db :: db where
  "expired_db = timer_db\<lparr>profiles := [shop_profile 3 None, shop_profile 4 None, shop_profile 9 None]\<rparr>"

definition sample_rands :: "nat \<Rightarrow> nat \<Rightarrow> uuid" where
  "sample_rands k n = 100 + 10 * k + n"

text \<open>
  Vendor 9 has asked for a withdrawal of 2000.00: the pending ledger entry 70 and the
  request 71 that an administrator has put in processing.
\<close>

definition payout_db :: db where
  "payout_db =
     shop_db\<lparr>transactions :=
                [\<lparr>t_id = 70, t_user_id = 9, t_wallet_id = 90, t_type = ''withdrawal'',
                  t_amount = - 200000, t_status = ''pending'', t_reference = ''LB_WD_9'',
                  t_external_reference = None, t_balance_before = Some 210000,
                  t_balance_after = Some 0, t_completed_at = None, t_metadata = MetaEmpty\<rparr>],
              withdrawal_requests :=
                [\<lparr>wr_id = 71, wr_vendor_id = 9, wr_transaction_id = Some 70,
                  wr_amount = 200000, wr_status = ''processing'', wr_admin_notes = None,
                  wr_processed_at = None\<rparr>]\<rparr>"

text \<open>A gateway in test mode whose verification call fails, and signed requests.\<close>

definition sample_env :: gateway_env where
  "sample_env = \<lparr>flw_webhook_secret = Some ''s3cret'', test_mode = True,
                  verifyTransaction = (\<lambda>i. VerificationFailed)\<rparr>"

definition sample_data :: webhook_data where
  "sample_data =
     \<lparr>wd_id = 77, wd_tx_ref = None, wd_txRef = None, wd_reference = Some ''LB_WD_9'',
      wd_amount = Some 2000, wd_status = Some ''SUCCESSFUL'', wd_meta_user_id = None,
      wd_customer_email = None, wd_complete_message = None\<rparr>"

definition transfer_completed_request :: webhook_request where
  "transfer_completed_request =
     \<lparr>wh_verif_hash = Some ''s3cret'', wh_event = Some ''transfer.completed'',
      wh_data = sample_data\<rparr>"

definition transfer_failed_request :: webhook_request where
  "transfer_failed_request =
     \<lparr>wh_verif_hash = Some ''s3cret'', wh_event = Some ''transfer.failed'',
      wh_data = sample_data\<lparr>wd_status := Some ''FAILED''\<rparr>\<rparr>"

text \<open>A signed charge of \<open>-6000\<close> for user 3, whose balance is 5000.00.\<close>

definition charge_request :: webhook_request where
  "charge_request =
     \<lparr>wh_verif_hash = Some ''s3cret'', wh_event = Some ''charge.completed'',
      wh_data = \<lparr>wd_id = 78, wd_tx_ref = Some ''LB_3_1'', wd_txRef = None, wd_reference = None,
                 wd_amount = Some (- 6000), wd_status = Some ''successful'',
                 wd_meta_user_id = Some 3, wd_customer_email = None,
                 wd_complete_message = None\<rparr>\<rparr>"

text \<open>Profile 5 has registered and holds the verification token \<open>tok\<close> until time 100.\<close>

definition signup_db :: db where
  "signup_db =
     shop_db\<lparr>profiles :=
       [shop_profile 3 (Some 4), shop_profile 4 None, shop_profile 9 None,
        \<lparr>p_id = 5, p_email = ''new@example.com'', p_is_verified = False,
         p_referred_by = None, p_verification_token = Some ''tok'',
         p_verification_expires = Some 100\<rparr>]\<rparr>"

section \<open>Properties\<close>

subsection \<open>Evaluation and statement lemmas\<close>

lemma floor_numeral_div [simp]: "\<lfloor>numeral a / numeral b :: rat\<rfloor> = numeral a div numeral b"
  using floor_divide_of_int_eq [of "numeral a" "numeral b", where ?'a = rat] by simp


lemma order_by_limit_1_None: "order_by_limit_1 key rows = None \<longleftrightarrow> rows = []"
  by (cases rows) (auto split: option.splits)

lemma update_where_length [simp]: "length (update_where c f rows) = length rows"
  by (simp add: update_where_def)


lemma find_update_where:
  assumes "\<And>r. P (f r) = P r"
  shows "find P (update_where c f rows) = map_option (\<lambda>r. if c r then f r else r) (find P rows)"
  using assms by (induction rows) (auto simp: update_where_def)

lemma credit_vendor_wallet_frame:
  assumes "credit_vendor_wallet rand now d b s = Inr s1"
  shows "tickets s1 = tickets s" "draws s1 = draws s" "draw_audit_log s1 = draw_audit_log s"
    "profiles s1 = profiles s" "referrals s1 = referrals s" "notifications s1 = notifications s"
    "platform_settings s1 = platform_settings s" "ticket_number_seq s1 = ticket_number_seq s"
    "withdrawal_requests s1 = withdrawal_requests s"
  using assms
  by (auto simp: credit_vendor_wallet_def Let_def split: option.splits if_splits)



lemma execute_draw_success_cases:
  assumes "execute_draw md5 rand now s i = Inr (DrawSuccess r, s')"
  shows "\<exists>d w s1.
    draw_of s i = Some d \<and> d_status d \<noteq> ''completed'' \<and> d_status d \<noteq> ''cancelled''
    \<and> d_sold_tickets d \<noteq> 0
    \<and> order_by_limit_1 (\<lambda>k. md5 (k_id k) (rand 0)) (tickets_of s i) = Some w
    \<and> credit_vendor_wallet rand now d (compute_breakdown d (read_platform_fee_percent s)) s = Inr s1
    \<and> ds_winner_id r = k_user_id w \<and> ds_winning_ticket_id r = k_id w
    \<and> ds_winning_ticket_number r = k_ticket_number w
    \<and> ds_breakdown r = compute_breakdown d (read_platform_fee_percent s)
    \<and> tickets s' = update_where (\<lambda>k. k_id k = k_id w) (\<lambda>k. k\<lparr>k_is_winner := True\<rparr>) (tickets s1)
    \<and> draws s' = update_where (\<lambda>d. d_id d = i)
        (\<lambda>d. d\<lparr>d_status := ''completed'', d_winner_id := Some (k_user_id w),
               d_winning_ticket_id := Some (k_id w), d_completed_at := Some now\<rparr>) (draws s1)
    \<and> wallets s' = wallets s1 \<and> transactions s' = transactions s1
    \<and> profiles s' = profiles s1 \<and> referrals s' = referrals s1
    \<and> notifications s' = notifications s1 \<and> platform_settings s' = platform_settings s1
    \<and> ticket_number_seq s' = ticket_number_seq s1
    \<and> withdrawal_requests s' = withdrawal_requests s1
    \<and> map a_details (draw_audit_log s') = map a_details (draw_audit_log s1) @
       [DetailsExecuted (d_sold_tickets d) (ds_total_participants r) (ds_random_seed r)
          (map k_id (sort_key k_created_at (tickets_of s i))) (ds_breakdown r),
        DetailsWinner (k_user_id w) (k_id w) (k_ticket_number w) (ds_random_seed r)]"
  using assms
  unfolding execute_draw_def draw_of_def tickets_of_def
  by (auto simp: Let_def split: option.splits if_splits sum.splits)

lemma execute_draw_failure_unchanged:
  assumes "execute_draw md5 rand now s i = Inr (DrawFailure m, s')"
  shows "s' = s"
  using assms unfolding execute_draw_def
  by (auto simp: Let_def split: option.splits if_splits sum.splits)


lemmas sample_defs = sample_md5_def sample_rand_def sample_draw_def sample_ticket_def
  timer_db_def rounding_db_def shop_db_def shop_profile_def shop_wallet_def overfee_db_def nobonus_db_def
  expired_db_def sample_rands_def payout_db_def sample_env_def sample_data_def
  transfer_completed_request_def transfer_failed_request_def charge_request_def signup_db_def
  shop_draw_def

lemmas exec_defs = execute_draw_def credit_vendor_wallet_def compute_breakdown_def
  read_platform_fee_percent_def settings_key_def cast_decimal_def update_where_def dec_def
  to_money_def Let_def


lemma to_money_dec [simp]: "to_money (dec m) = m"
proof -
  have "\<lfloor>(of_int m :: rat) + 1 / 2\<rfloor> = m" by linarith
  moreover have "\<lfloor>(of_int (- m) :: rat) + 1 / 2\<rfloor> = - m" by linarith
  ultimately show ?thesis
    by (auto simp: to_money_def dec_def)
qed


lemma wallet_of_update_where:
  assumes "\<And>w. w_user_id (f w) = w_user_id w"
  shows "wallet_of (s\<lparr>wallets := update_where c f (wallets s)\<rparr>) u
         = map_option (\<lambda>w. if c w then f w else w) (wallet_of s u)"
  unfolding wallet_of_def using assms by (simp add: find_update_where)



subsection \<open>The purchase, section by section\<close>










lemma update_where_map_unchanged:
  assumes "\<And>r. g (f r) = g r"
  shows "map g (update_where c f rows) = map g rows"
  using assms by (induction rows) (auto simp: update_where_def)

lemma credit_balance_keeps [simp]:
  "map w_user_id (credit_balance i x ws) = map w_user_id ws"
  "map w_id (credit_balance i x ws) = map w_id ws"
  "map w_vendor_balance (credit_balance i x ws) = map w_vendor_balance ws"
  unfolding credit_balance_def by (simp_all add: update_where_map_unchanged)







lemma bonus_transaction_sel [simp]:
  "t_type (bonus_transaction i user wid x ref now) = ''bonus''"
  "t_wallet_id (bonus_transaction i user wid x ref now) = wid"
  "t_amount (bonus_transaction i user wid x ref now) = to_money x"
  "t_user_id (bonus_transaction i user wid x ref now) = user"
  "t_status (bonus_transaction i user wid x ref now) = ''completed''"
  by (simp_all add: bonus_transaction_def)




















subsection \<open>Facts about the handlers\<close>

lemma insert_notification_frame:
  assumes "insert_notification n s = Inr s'"
  shows "s' = s\<lparr>notifications := notifications s @ [n]\<rparr>"
    and "n_type n \<in> set notification_types"
  using assms by (auto simp: insert_notification_def split: if_splits)

lemma createNotification_frame [simp]:
  "profiles (createNotification u k t s) = profiles s"
  "wallets (createNotification u k t s) = wallets s"
  "transactions (createNotification u k t s) = transactions s"
  "platform_settings (createNotification u k t s) = platform_settings s"
  "draws (createNotification u k t s) = draws s"
  "tickets (createNotification u k t s) = tickets s"
  "draw_audit_log (createNotification u k t s) = draw_audit_log s"
  "referrals (createNotification u k t s) = referrals s"
  "withdrawal_requests (createNotification u k t s) = withdrawal_requests s"
  "ticket_number_seq (createNotification u k t s) = ticket_number_seq s"
  by (auto simp: createNotification_def insert_notification_def)

lemma notify_winner_unchanged [simp]: "notify_winner r s = s"
  by (simp add: notify_winner_def insert_notification_def notification_types_def)

lemma execute_draw_notifications:
  assumes "execute_draw md5 rand now s i = Inr (res, s')"
  shows "notifications s' = notifications s"
proof (cases res)
  case (DrawFailure m)
  with assms have "s' = s" by (auto dest: execute_draw_failure_unchanged)
  then show ?thesis by simp
next
  case (DrawSuccess r)
  with assms have "execute_draw md5 rand now s i = Inr (DrawSuccess r, s')" by simp
  from execute_draw_success_cases [OF this] obtain d and w :: ticket and s1 where
    "credit_vendor_wallet rand now d (compute_breakdown d (read_platform_fee_percent s)) s = Inr s1"
    "notifications s' = notifications s1"
    by blast
  then show ?thesis
    using credit_vendor_wallet_frame(6) [of rand now d
        "compute_breakdown d (read_platform_fee_percent s)" s s1] by simp
qed

lemma scheduler_step_notifications:
  "notifications (scheduler_step md5 rand now expired s) = notifications s"
  by (auto simp: scheduler_step_def dest: execute_draw_notifications
      split: sum.splits prod.splits draw_result.splits)

lemma scheduler_loop_notifications:
  "notifications (scheduler_loop md5 rands now k expired s) = notifications s"
  by (induction expired arbitrary: k s) (simp_all add: scheduler_step_notifications)

lemma update_withdrawal_requests_status:
  assumes "\<And>r. wr_status (upd r) \<notin> set withdrawal_statuses"
  shows "withdrawal_requests (update_withdrawal_requests cond upd s) = withdrawal_requests s"
proof (cases "filter cond (withdrawal_requests s)")
  case Nil
  then have "\<forall>r \<in> set (withdrawal_requests s). \<not> cond r"
    by (simp add: filter_empty_conv)
  then have "update_where cond upd (withdrawal_requests s) = withdrawal_requests s"
    unfolding update_where_def by (simp add: map_idI)
  then show ?thesis
    by (simp add: update_withdrawal_requests_def Let_def)
next
  case (Cons r rows)
  then show ?thesis
    using assms [of r] by (simp add: update_withdrawal_requests_def Let_def)
qed

lemma update_withdrawal_requests_frame [simp]:
  "profiles (update_withdrawal_requests cond upd s) = profiles s"
  "wallets (update_withdrawal_requests cond upd s) = wallets s"
  "transactions (update_withdrawal_requests cond upd s) = transactions s"
  "notifications (update_withdrawal_requests cond upd s) = notifications s"
  "tickets (update_withdrawal_requests cond upd s) = tickets s"
  "draws (update_withdrawal_requests cond upd s) = draws s"
  by (simp_all add: update_withdrawal_requests_def Let_def)




subsection \<open>C1: purchase atomicity\<close>




subsection \<open>C2: payout conservation\<close>




subsection \<open>C3: the winner of an executed draw\<close>



subsection \<open>C4: the referral bonus\<close>




subsection \<open>C5: the fallbacks of the handlers when the settings row is absent\<close>

text \<open>
  Claim C5 says that without a settings row every bounded operation enforces the default
  bounds of the configuration table (minimum deposit 1000, minimum withdrawal 5000,
  at most 1000 tickets per draw, ticket prices from 500, referral bonus 500, referral
  percentage 5). The handlers carry literals of their own. Without the row, deposit
  initiation accepts 500 (its minimum is 100), withdrawal accepts 2000 (its minimum is
  1000), bundle approval accepts 5000 tickets at a price of 100 (its bounds are 10000
  tickets and prices from 100 to 50000), and the admin settings read reports a referral
  bonus of 1000 and a referral percentage of 10. The purchase cap of 50, the withdrawal
  fee of 100 and the literal of the public configuration route agree with the table.
\<close>

theorem settings_fallback_literals:
  "initialize_payment_check (s\<lparr>platform_settings := None\<rparr>) (Finite 500) = Accepted 500
   \<and> withdraw_check (s\<lparr>platform_settings := None\<rparr>) (Finite 2000) = Accepted 2000
   \<and> withdraw_fee (s\<lparr>platform_settings := None\<rparr>) = 100
   \<and> approve_check (s\<lparr>platform_settings := None\<rparr>) 5000 100 = None
   \<and> map_of (admin_settings (s\<lparr>platform_settings := None\<rparr>)) ''referralBonus'' = Some (JNum 1000)
   \<and> map_of (admin_settings (s\<lparr>platform_settings := None\<rparr>)) ''referralPercentage'' = Some (JNum 10)
   \<and> purchase_cap (s\<lparr>platform_settings := None\<rparr>) = 50
   \<and> read_max_tickets_per_purchase (s\<lparr>platform_settings := None\<rparr>) = 50
   \<and> map_of (public_config (s\<lparr>platform_settings := None\<rparr>)) ''minDeposit'' = Some (JNum 1000)
   \<and> map_of (public_config (s\<lparr>platform_settings := None\<rparr>)) ''minWithdrawal'' = Some (JNum 5000)
   \<and> map_of (public_config (s\<lparr>platform_settings := None\<rparr>)) ''maxTicketsPerDraw'' = Some (JNum 1000)
   \<and> map_of (public_config (s\<lparr>platform_settings := None\<rparr>)) ''minTicketPrice'' = Some (JNum 500)
   \<and> map_of (public_config (s\<lparr>platform_settings := None\<rparr>)) ''referralBonus'' = Some (JNum 500)
   \<and> map_of (public_config (s\<lparr>platform_settings := None\<rparr>)) ''referralPercentage'' = Some (JNum 5)"
  by (simp add: initialize_payment_check_def withdraw_check_def withdraw_fee_def approve_check_def
      admin_settings_def purchase_cap_def read_max_tickets_per_purchase_def public_config_def
      deposit_config_def withdraw_config_def approve_config_def config_or_def number_or_def
      validateAmount_def js_less_def js_greater_def settings_key_def cast_integer_def Let_def)

subsection \<open>C6: the status of the webhook response\<close>




subsection \<open>C7: transfer events and the withdrawal request\<close>

text \<open>
  Claim C7 says that a transfer-completed event leaves the paired withdrawal request with
  status \<open>completed\<close>, and a transfer-failed event with status \<open>failed\<close>. Neither status is in
  the list of the check constraint of \<open>withdrawal_requests.status\<close>, so the store refuses both
  updates and the handlers go on: no transfer event changes any withdrawal request, while
  the ledger transaction does change.
\<close>

theorem transfer_webhook_request_status:
  "withdrawal_requests (handleTransferCompleted now d s) = withdrawal_requests s
   \<and> withdrawal_requests (handleTransferFailed d s) = withdrawal_requests s"
  by (simp add: handleTransferCompleted_def handleTransferFailed_def Let_def
      update_withdrawal_requests_status withdrawal_statuses_def split: option.splits)

theorem transfer_webhook_request_status_witness:
  "flutterwave_webhook sample_env sample_rand 60 transfer_completed_request payout_db
     = (200, handleTransferCompleted 60 sample_data payout_db)
   \<and> map t_status (transactions (handleTransferCompleted 60 sample_data payout_db)) = [''completed'']
   \<and> map wr_status (withdrawal_requests (handleTransferCompleted 60 sample_data payout_db))
       = [''processing'']
   \<and> flutterwave_webhook sample_env sample_rand 60 transfer_failed_request payout_db
     = (200, handleTransferFailed (sample_data\<lparr>wd_status := Some ''FAILED''\<rparr>) payout_db)
   \<and> map t_status (transactions (handleTransferFailed (sample_data\<lparr>wd_status := Some ''FAILED''\<rparr>)
         payout_db)) = [''failed'']
   \<and> map wr_status (withdrawal_requests
         (handleTransferFailed (sample_data\<lparr>wd_status := Some ''FAILED''\<rparr>) payout_db))
       = [''processing'']"
proof -
  have a: "flutterwave_webhook sample_env sample_rand 60 transfer_completed_request payout_db
     = (200, handleTransferCompleted 60 sample_data payout_db)"
    by (simp add: flutterwave_webhook_def dispatch_event_def verifyWebhookSignature_def
        truthy_text_def charge_events_def sample_env_def transfer_completed_request_def)
  have b: "flutterwave_webhook sample_env sample_rand 60 transfer_failed_request payout_db
     = (200, handleTransferFailed (sample_data\<lparr>wd_status := Some ''FAILED''\<rparr>) payout_db)"
    by (simp add: flutterwave_webhook_def dispatch_event_def verifyWebhookSignature_def
        truthy_text_def charge_events_def sample_env_def transfer_failed_request_def)
  have c: "map t_status (transactions (handleTransferCompleted 60 sample_data payout_db)) = [''completed'']"
    by (simp add: handleTransferCompleted_def transfer_reference_def normalized_reference_def
        normalized_tx_ref_def js_or_def truthy_text_def withdrawal_tx_def single_row_def
        update_where_def Let_def sample_data_def payout_db_def)
  have d: "map t_status (transactions (handleTransferFailed (sample_data\<lparr>wd_status := Some ''FAILED''\<rparr>)
         payout_db)) = [''failed'']"
    by (simp add: handleTransferFailed_def transfer_reference_def normalized_reference_def
        normalized_tx_ref_def js_or_def truthy_text_def withdrawal_tx_def single_row_def
        update_where_def Let_def sample_data_def payout_db_def)
  have e: "map wr_status (withdrawal_requests payout_db) = [''processing'']"
    by (simp add: payout_db_def)
  from a b c d e
    transfer_webhook_request_status [of 60 sample_data payout_db]
    transfer_webhook_request_status [of 60 "sample_data\<lparr>wd_status := Some ''FAILED''\<rparr>" payout_db]
  show ?thesis by simp
qed

subsection \<open>C8: the scheduler and the winner's notification\<close>

text \<open>
  Claim C8 says that a scheduler tick cancels an expired timer draw without sales, executes
  one with sales, and on success sends the winner a notification. The tick inserts the
  notification with type \<open>draw_won\<close>, which the check constraint of \<open>notifications.type\<close>
  refuses: a tick never adds a notification, also when it completes a draw.
\<close>

theorem scheduler_tick_notifications:
  "notifications (scheduler_tick md5 rands now s) = notifications s"
  by (simp add: scheduler_tick_def scheduler_loop_notifications)

theorem scheduler_tick_notifications_witness:
  "map d_status (draws (scheduler_tick sample_md5 sample_rands 60 expired_db)) = [''completed'']
   \<and> map d_winner_id (draws (scheduler_tick sample_md5 sample_rands 60 expired_db)) = [Some 4]
   \<and> list_ex (\<lambda>p. p_id p = 4) (profiles expired_db)
   \<and> notifications (scheduler_tick sample_md5 sample_rands 60 expired_db) = []"
proof -
  have "map d_status (draws (scheduler_tick sample_md5 sample_rands 60 expired_db)) = [''completed'']
   \<and> map d_winner_id (draws (scheduler_tick sample_md5 sample_rands 60 expired_db)) = [Some 4]"
    by (simp add: scheduler_tick_def expired_timer_draws_def scheduler_step_def
        sample_defs exec_defs Let_def)
  moreover have "list_ex (\<lambda>p. p_id p = 4) (profiles expired_db)"
    by (simp add: expired_db_def shop_profile_def)
  moreover have "notifications expired_db = []"
    by (simp add: expired_db_def timer_db_def)
  ultimately show ?thesis
    using scheduler_tick_notifications [of sample_md5 sample_rands 60 expired_db] by simp
qed

subsection \<open>C9: email verification by token\<close>

text \<open>
  Claim C9, as amended. When no profile, or more than one, holds the token, the response
  status is 400 and nothing changes. When the profile that holds it is already verified,
  the response is a success and nothing changes. When it is not verified and its expiry
  (the epoch when missing) lies before the current time, the status is 400 and nothing
  changes. Otherwise the response is a success and the profile is set verified with its
  token and expiry cleared.
\<close>

theorem verify_email_outcomes:
  "(single_row (filter (\<lambda>p. p_verification_token p = Some token) (profiles s)) = None
      \<longrightarrow> verify_email now token s = (Json 400 ''Invalid or expired verification token'', s))
   \<and> (\<forall>found. single_row (filter (\<lambda>p. p_verification_token p = Some token) (profiles s)) = Some found
        \<longrightarrow> (p_is_verified found
               \<longrightarrow> verify_email now token s = (Json 200 ''Email already verified'', s))
          \<and> (\<not> p_is_verified found
               \<and> (case p_verification_expires found of None \<Rightarrow> 0 | Some t \<Rightarrow> t) < now
               \<longrightarrow> verify_email now token s = (Json 400 ''Verification token has expired'', s))
          \<and> (\<not> p_is_verified found
               \<and> \<not> (case p_verification_expires found of None \<Rightarrow> 0 | Some t \<Rightarrow> t) < now
               \<longrightarrow> fst (verify_email now token s) = Json 200 ''Email verified successfully''
                 \<and> profiles (snd (verify_email now token s))
                     = update_where (\<lambda>p. p_id p = p_id found)
                         (\<lambda>p. p\<lparr>p_is_verified := True, p_verification_token := None,
                                p_verification_expires := None\<rparr>) (profiles s)))"
  by (simp add: verify_email_def Let_def)

theorem verify_email_outcomes_counterexample:
  "filter (\<lambda>p. p_verification_token p = Some ''nope'') (profiles signup_db) = []
   \<and> verify_email 60 ''nope'' signup_db
       = (Json 400 ''Invalid or expired verification token'', signup_db)
   \<and> status_of (fst (verify_email 60 ''nope'' signup_db)) \<noteq> 404"
  by (simp add: verify_email_def single_row_def status_of_def signup_db_def shop_profile_def)

theorem verify_email_outcomes_witness:
  "status_of (fst (verify_email 60 ''nope'' signup_db)) = 400
   \<and> status_of (fst (verify_email 60 ''tok'' signup_db)) = 200
   \<and> map p_is_verified (profiles signup_db) = [True, True, True, False]
   \<and> map p_is_verified (profiles (snd (verify_email 60 ''tok'' signup_db))) = [True, True, True, True]
   \<and> map p_verification_token (profiles (snd (verify_email 60 ''tok'' signup_db)))
       = [None, None, None, None]
   \<and> status_of (fst (verify_email 101 ''tok'' signup_db)) = 400
   \<and> snd (verify_email 101 ''tok'' signup_db) = signup_db"
proof -
  let ?found = "\<lparr>p_id = 5, p_email = ''new@example.com'', p_is_verified = False,
         p_referred_by = None, p_verification_token = Some ''tok'',
         p_verification_expires = Some 100\<rparr>"
  have none: "single_row (filter (\<lambda>p. p_verification_token p = Some ''nope'') (profiles signup_db)) = None"
    by (simp add: single_row_def signup_db_def shop_profile_def)
  have one: "single_row (filter (\<lambda>p. p_verification_token p = Some ''tok'') (profiles signup_db))
      = Some ?found"
    by (simp add: single_row_def signup_db_def shop_profile_def)
  have before: "map p_is_verified (profiles signup_db) = [True, True, True, False]"
    by (simp add: signup_db_def shop_profile_def)
  note T = verify_email_outcomes
  from T [of "''nope''" signup_db 60] none
  have r1: "status_of (fst (verify_email 60 ''nope'' signup_db)) = 400"
    by (simp add: status_of_def)
  from T [of "''tok''" signup_db 60] one
  have "fst (verify_email 60 ''tok'' signup_db) = Json 200 ''Email verified successfully''
      \<and> profiles (snd (verify_email 60 ''tok'' signup_db))
          = update_where (\<lambda>p. p_id p = p_id ?found)
              (\<lambda>p. p\<lparr>p_is_verified := True, p_verification_token := None,
                     p_verification_expires := None\<rparr>) (profiles signup_db)"
    by simp
  then have r2: "status_of (fst (verify_email 60 ''tok'' signup_db)) = 200"
    "map p_is_verified (profiles (snd (verify_email 60 ''tok'' signup_db))) = [True, True, True, True]"
    "map p_verification_token (profiles (snd (verify_email 60 ''tok'' signup_db)))
       = [None, None, None, None]"
    by (simp_all add: status_of_def update_where_def signup_db_def shop_profile_def)
  from T [of "''tok''" signup_db 101] one
  have "verify_email 101 ''tok'' signup_db = (Json 400 ''Verification token has expired'', signup_db)"
    by simp
  then have r3: "status_of (fst (verify_email 101 ''tok'' signup_db)) = 400"
    "snd (verify_email 101 ''tok'' signup_db) = signup_db"
    by (simp_all add: status_of_def)
  from r1 r2 r3 before show ?thesis by simp
qed


end
